theory Spec2Isabelle
  imports Main
begin

section \<open>The appointment-reminder scheduler (check-appointment-reminders)\<close>

text \<open>
  The edge function reads the clock, fetches today's scheduled appointments, and for every
  appointment and every reminder tier whose lead time matches the current minute it looks up
  the patient's and the doctor's names and the patient's e-mail address, posts an e-mail to the
  send-email function and inserts one row into the notifications table.

  The external collaborators (the database, the user directory, the e-mail function) are not
  part of the repository. Their answers during one invocation are collected in a record
  \<open>env\<close>; what they hold and what was sent to them is the record \<open>world\<close>. The query builders
  of supabase-js resolve to a pair of data and error and reject only after \<open>throwOnError()\<close>,
  which the source never calls, so a refused insert is a result the source can inspect, not an
  exception. The two environment variables are read with a non-null assertion and are taken to
  be present.
\<close>

subsection \<open>Data\<close>

type_synonym uuid = string

text \<open>
  A calendar date is counted in days since 1970-01-01. The \<open>DATE\<close> column and the text
  \<open>YYYY-MM-DD\<close> that JavaScript and PostgREST exchange for it are identified with this number.
\<close>

type_synonym date = int

text \<open>A row of \<open>public.appointments\<close>; the query selects every column below but \<open>status\<close>.\<close>

record appointment =
  id_apt :: uuid
  patient_id :: uuid
  doctor_id :: uuid
  appointment_date :: date
  appointment_time :: string
  status :: string

text \<open>The object passed to \<open>supabase.from('notifications').insert\<close>.\<close>

record notification =
  user_id :: uuid
  title :: string
  message :: string
  type_ntf :: string
  related_id :: uuid
  action_url :: string

text \<open>The \<open>emailPayload\<close> posted to \<open>/functions/v1/send-email\<close>.\<close>

record email_payload =
  type_eml :: string
  to_eml :: string
  patientName :: string
  doctorName :: string
  date_eml :: date
  time_eml :: string
  reminderMinutes_eml :: int

text \<open>
  The instant \<open>new Date()\<close> returns, in milliseconds since the epoch, and the offset of the
  server's time zone east of UTC in minutes (local time is UTC plus the offset).
\<close>

record clock =
  epoch_ms :: int
  tz_offset_minutes :: int

text \<open>
  What \<open>fetch\<close> of the e-mail function does: it rejects (a network failure), or it resolves to
  a response with a status and a body text.
\<close>

datatype email_outcome = Fetch_rejected string | Responded nat string

text \<open>
  The error object that supabase-js returns in \<open>error\<close> for a query that failed. The source
  reads only its \<open>message\<close>, which the object carries or does not carry.
\<close>

datatype postgrest_error = Postgrest_error (error_message: "string option")

text \<open>
  The answers of the collaborators during one invocation. The two functions that answer a
  dispatch take the number of reminders already pushed to \<open>sentReminders\<close> in this run, so that
  two calls with equal arguments may be answered differently.
\<close>

record env =
  appointments_fetch_error :: "postgrest_error option"
  profile_full_name :: "uuid \<Rightarrow> string option"
  doctor_full_name :: "uuid \<Rightarrow> string option"
  auth_email :: "uuid \<Rightarrow> string option"
  send_email :: "nat \<Rightarrow> email_payload \<Rightarrow> email_outcome"
  insert_accepted :: "nat \<Rightarrow> notification \<Rightarrow> bool"

datatype log_event =
    Log_checking date int int
  | Log_fetch_error postgrest_error
  | Log_found nat
  | Log_sending int uuid
  | Log_email_failed nat string string
  | Log_email_sent string
  | Log_email_error string
  | Log_sent nat
  | Log_handler_error postgrest_error

record world =
  appointments_tbl :: "appointment list"
  notifications_tbl :: "notification list"
  emails_attempted :: "email_payload list"
  console :: "log_event list"

text \<open>
  The body of a response: none, \<open>{ success, remindersSent }\<close>, or the text that
  \<open>JSON.stringify({ error: error.message })\<close> yields, which is \<open>{ error: m }\<close> for a message
  \<open>m\<close> and \<open>{}\<close> for an undefined one (\<open>Error_body None\<close>).
\<close>

datatype body = Null_body | Success_body bool nat | Error_body "string option"

datatype response = Response nat body

subsection \<open>The clock\<close>

definition toISOString_date :: "clock \<Rightarrow> date" where
  "toISOString_date now = epoch_ms now div 86400000"

definition local_ms :: "clock \<Rightarrow> int" where
  "local_ms now = epoch_ms now + tz_offset_minutes now * 60000"

definition getHours :: "clock \<Rightarrow> int" where
  "getHours now = (local_ms now div 3600000) mod 24"

definition getMinutes :: "clock \<Rightarrow> int" where
  "getMinutes now = (local_ms now div 60000) mod 60"

text \<open>The calendar date on the server's local clock; the source never computes it.\<close>

definition local_date :: "clock \<Rightarrow> date" where
  "local_date now = local_ms now div 86400000"

subsection \<open>Strings and numbers\<close>

text \<open>\<open>String.prototype.split\<close> at a one-character separator.\<close>

fun split_on :: "char \<Rightarrow> string \<Rightarrow> string list" where
  "split_on c [] = [[]]"
| "split_on c (x # xs) =
     (if x = c then [] # split_on c xs
      else (case split_on c xs of [] \<Rightarrow> [[x]] | y # ys \<Rightarrow> (x # y) # ys))"

definition is_digit :: "char \<Rightarrow> bool" where
  "is_digit c \<longleftrightarrow> (48::nat) \<le> of_char c \<and> (of_char c :: nat) \<le> 57"

definition digit_of :: "char \<Rightarrow> nat" where
  "digit_of c = of_char c - 48"

text \<open>
  \<open>Number\<close> on a piece of the text of a \<open>TIME\<close> column. The hour and the minute pieces of
  such a text are runs of decimal digits, and on a run of digits the model is exact (the empty
  string is 0). On every other string it answers \<open>None\<close>, which stands for NaN; the column's
  type keeps such strings out of the two pieces the source reads.
\<close>

definition Number_js :: "string \<Rightarrow> int option" where
  "Number_js s =
     (if list_all is_digit s then Some (int (foldl (\<lambda>n c. 10 * n + digit_of c) 0 s))
      else None)"

definition digit_char :: "nat \<Rightarrow> char" where
  "digit_char d = char_of (48 + d)"

function show_nat :: "nat \<Rightarrow> string" where
  "show_nat n = (if n < 10 then [digit_char n] else show_nat (n div 10) @ [digit_char (n mod 10)])"
  by pat_completeness auto
termination
  by (relation "measure (\<lambda>n. n)") auto

declare show_nat.simps [simp del]

text \<open>A number inside a template literal.\<close>

definition show_int :: "int \<Rightarrow> string" where
  "show_int i = (if i < 0 then CHR ''-'' # show_nat (nat (- i)) else show_nat (nat i))"

text \<open>The JavaScript \<open>x || d\<close> on a string that may be null, undefined or empty.\<close>

definition or_default :: "string option \<Rightarrow> string \<Rightarrow> string" where
  "or_default x d = (case x of None \<Rightarrow> d | Some s \<Rightarrow> if s = [] then d else s)"

subsection \<open>Time-window arithmetic\<close>

definition reminderMinutes :: "int list" where
  "reminderMinutes = [60, 30, 10]"

text \<open>
  \<open>aptHour * 60 + aptMinute\<close> after \<open>split(':').map(Number)\<close>; a missing or non-numeric piece
  makes the sum NaN.
\<close>

definition appointmentTimeInMinutes :: "string \<Rightarrow> int option" where
  "appointmentTimeInMinutes t =
     (case map Number_js (split_on CHR '':'' t) of
        Some aptHour # Some aptMinute # _ \<Rightarrow> Some (aptHour * 60 + aptMinute)
      | _ \<Rightarrow> None)"

definition currentTimeInMinutes :: "clock \<Rightarrow> int" where
  "currentTimeInMinutes now = getHours now * 60 + getMinutes now"

definition minutesUntilAppointment :: "clock \<Rightarrow> appointment \<Rightarrow> int option" where
  "minutesUntilAppointment now a =
     (case appointmentTimeInMinutes (appointment_time a) of
        None \<Rightarrow> None
      | Some m \<Rightarrow> Some (m - currentTimeInMinutes now))"

text \<open>The test of line 59; every comparison with NaN is false.\<close>

definition reminder_due :: "int option \<Rightarrow> int \<Rightarrow> bool" where
  "reminder_due mu reminderTime =
     (case mu of
        None \<Rightarrow> False
      | Some m \<Rightarrow> m \<ge> reminderTime - 1 \<and> m \<le> reminderTime + 1)"

subsection \<open>One due reminder\<close>

definition log :: "log_event \<Rightarrow> world \<Rightarrow> world" where
  "log ev w = w\<lparr>console := console w @ [ev]\<rparr>"

definition resolved_doctorName :: "env \<Rightarrow> appointment \<Rightarrow> string" where
  "resolved_doctorName e a = or_default (doctor_full_name e (doctor_id a)) ''Doctor''"

definition emailPayload :: "env \<Rightarrow> appointment \<Rightarrow> int \<Rightarrow> string \<Rightarrow> email_payload" where
  "emailPayload e a reminderTime patientEmail =
     \<lparr>type_eml = ''appointment_reminder'',
      to_eml = patientEmail,
      patientName = or_default (profile_full_name e (patient_id a)) ''Patient'',
      doctorName = resolved_doctorName e a,
      date_eml = appointment_date a,
      time_eml = appointment_time a,
      reminderMinutes_eml = reminderTime\<rparr>"

definition notification_row :: "env \<Rightarrow> appointment \<Rightarrow> int \<Rightarrow> notification" where
  "notification_row e a reminderTime =
     \<lparr>user_id = patient_id a,
      title = ''Appointment in '' @ show_int reminderTime @ '' minutes'',
      message = ''Your appointment with Dr. '' @ resolved_doctorName e a @ '' starts in ''
                @ show_int reminderTime @ '' minutes.'',
      type_ntf = ''appointment_reminder'',
      related_id = id_apt a,
      action_url = ''/appointments''\<rparr>"

text \<open>The \<open>try\<close> block of lines 83 to 111: the request is issued, and every outcome is only logged.\<close>

definition dispatch_email :: "env \<Rightarrow> nat \<Rightarrow> email_payload \<Rightarrow> world \<Rightarrow> world" where
  "dispatch_email e k p w =
     (let w' = w\<lparr>emails_attempted := emails_attempted w @ [p]\<rparr> in
      case send_email e k p of
        Fetch_rejected emailError \<Rightarrow> log (Log_email_error emailError) w'
      | Responded st errorText \<Rightarrow>
          if \<not> (200 \<le> st \<and> st \<le> 299) then log (Log_email_failed st (to_eml p) errorText) w'
          else log (Log_email_sent (to_eml p)) w')"

text \<open>The insert of lines 115 to 122; its result is discarded.\<close>

definition insert_notification :: "env \<Rightarrow> nat \<Rightarrow> notification \<Rightarrow> world \<Rightarrow> world" where
  "insert_notification e k n w =
     (if insert_accepted e k n then w\<lparr>notifications_tbl := notifications_tbl w @ [n]\<rparr> else w)"

definition reminder_key :: "appointment \<Rightarrow> int \<Rightarrow> string" where
  "reminder_key a reminderTime = id_apt a @ ''_'' @ show_int reminderTime @ ''min''"

text \<open>The body of the \<open>if\<close> of line 59, on the world and on \<open>sentReminders\<close>.\<close>

definition process_reminder ::
  "env \<Rightarrow> appointment \<Rightarrow> int \<Rightarrow> world \<times> string list \<Rightarrow> world \<times> string list" where
  "process_reminder e a reminderTime s =
     (let w = fst s; sentReminders = snd s; k = length sentReminders;
          w1 = log (Log_sending reminderTime (id_apt a)) w;
          w2 = (case auth_email e (patient_id a) of
                  None \<Rightarrow> w1
                | Some patientEmail \<Rightarrow>
                    if patientEmail = [] then w1
                    else dispatch_email e k (emailPayload e a reminderTime patientEmail) w1);
          w3 = insert_notification e k (notification_row e a reminderTime) w2
      in (w3, sentReminders @ [reminder_key a reminderTime]))"

subsection \<open>The two loops and the handler\<close>

fun tier_loop ::
  "env \<Rightarrow> appointment \<Rightarrow> int option \<Rightarrow> int list \<Rightarrow> world \<times> string list \<Rightarrow> world \<times> string list"
where
  "tier_loop e a mu [] s = s"
| "tier_loop e a mu (reminderTime # ts) s =
     tier_loop e a mu ts
       (if reminder_due mu reminderTime then process_reminder e a reminderTime s else s)"

fun appointment_loop ::
  "env \<Rightarrow> clock \<Rightarrow> appointment list \<Rightarrow> world \<times> string list \<Rightarrow> world \<times> string list"
where
  "appointment_loop e now [] s = s"
| "appointment_loop e now (a # as) s =
     appointment_loop e now as (tier_loop e a (minutesUntilAppointment now a) reminderMinutes s)"

text \<open>What the store returns for the query of lines 29 to 39 when it answers.\<close>

definition select_appointments :: "date \<Rightarrow> appointment list \<Rightarrow> appointment list" where
  "select_appointments todayDate tbl =
     filter (\<lambda>a. appointment_date a = todayDate \<and> status a = ''scheduled'') tbl"

text \<open>
  The \<open>try\<close> block: \<open>Inl\<close> is the error object thrown at line 43, \<open>Inr\<close> is
  \<open>sentReminders.length\<close>.
\<close>

definition try_block :: "env \<Rightarrow> clock \<Rightarrow> world \<Rightarrow> (postgrest_error + nat) \<times> world" where
  "try_block e now w =
     (let todayDate = toISOString_date now;
          w1 = log (Log_checking todayDate (getHours now) (getMinutes now)) w
      in case appointments_fetch_error e of
           Some fetchError \<Rightarrow> (Inl fetchError, log (Log_fetch_error fetchError) w1)
         | None \<Rightarrow>
             (let appointments = select_appointments todayDate (appointments_tbl w1);
                  w2 = log (Log_found (length appointments)) w1;
                  s = appointment_loop e now appointments (w2, [])
              in (Inr (length (snd s)), log (Log_sent (length (snd s))) (fst s))))"

definition handler :: "env \<Rightarrow> clock \<Rightarrow> string \<Rightarrow> world \<Rightarrow> response \<times> world" where
  "handler e now method w =
     (if method = ''OPTIONS'' then (Response 200 Null_body, w)
      else case try_block e now w of
             (Inr n, w') \<Rightarrow> (Response 200 (Success_body True n), w')
           | (Inl err, w') \<Rightarrow>
               (Response 500 (Error_body (error_message err)),
                log (Log_handler_error err) w'))"

subsection \<open>The reminders of one run\<close>

text \<open>
  The tiers the test of line 59 lets through for one appointment, the pairs of appointment and
  tier it lets through for a list of candidates, in the order of the two loops, and what
  processing these pairs adds to the notifications table and to the e-mails posted.
\<close>

definition due_tiers :: "clock \<Rightarrow> appointment \<Rightarrow> int list" where
  "due_tiers now a = filter (reminder_due (minutesUntilAppointment now a)) reminderMinutes"

definition due_pairs :: "clock \<Rightarrow> appointment list \<Rightarrow> (appointment \<times> int) list" where
  "due_pairs now as = concat (map (\<lambda>a. map (Pair a) (due_tiers now a)) as)"

definition candidates :: "clock \<Rightarrow> world \<Rightarrow> appointment list" where
  "candidates now w = select_appointments (toISOString_date now) (appointments_tbl w)"

definition run_pairs ::
  "env \<Rightarrow> (appointment \<times> int) list \<Rightarrow> world \<times> string list \<Rightarrow> world \<times> string list" where
  "run_pairs e ps s = foldl (\<lambda>s p. process_reminder e (fst p) (snd p) s) s ps"

definition email_for :: "env \<Rightarrow> appointment \<Rightarrow> int \<Rightarrow> email_payload list" where
  "email_for e a t =
     (case auth_email e (patient_id a) of
        None \<Rightarrow> []
      | Some patientEmail \<Rightarrow> if patientEmail = [] then [] else [emailPayload e a t patientEmail])"

definition row_for :: "env \<Rightarrow> nat \<Rightarrow> appointment \<Rightarrow> int \<Rightarrow> notification list" where
  "row_for e k a t =
     (if insert_accepted e k (notification_row e a t) then [notification_row e a t] else [])"

fun inserted_rows :: "env \<Rightarrow> nat \<Rightarrow> (appointment \<times> int) list \<Rightarrow> notification list" where
  "inserted_rows e k [] = []"
| "inserted_rows e k (p # ps) = row_for e k (fst p) (snd p) @ inserted_rows e (Suc k) ps"

definition dispatched_emails :: "env \<Rightarrow> (appointment \<times> int) list \<Rightarrow> email_payload list" where
  "dispatched_emails e ps = concat (map (\<lambda>p. email_for e (fst p) (snd p)) ps)"

text \<open>
  The store accepts every insert of the run that processes the pairs \<open>ps\<close>, the first of
  them being the insert number \<open>k\<close>.
\<close>

fun run_accepted :: "env \<Rightarrow> nat \<Rightarrow> (appointment \<times> int) list \<Rightarrow> bool" where
  "run_accepted e k [] = True"
| "run_accepted e k (p # ps) =
     (insert_accepted e k (notification_row e (fst p) (snd p)) \<and> run_accepted e (Suc k) ps)"

text \<open>Two readings of the clock within one minute, in one time zone.\<close>

definition same_minute :: "clock \<Rightarrow> clock \<Rightarrow> bool" where
  "same_minute c c' \<longleftrightarrow>
     epoch_ms c div 60000 = epoch_ms c' div 60000 \<and> tz_offset_minutes c = tz_offset_minutes c'"

text \<open>Two invocations in succession, the second on the world the first one left.\<close>

definition two_runs :: "env \<Rightarrow> clock \<Rightarrow> clock \<Rightarrow> string \<Rightarrow> string \<Rightarrow> world \<Rightarrow> world" where
  "two_runs e now1 now2 method1 method2 w =
     snd (handler e now2 method2 (snd (handler e now1 method1 w)))"

subsection \<open>The text of a \<open>TIME\<close> column\<close>

text \<open>
  PostgreSQL prints a \<open>TIME\<close> value as two digits of hours, a colon, two digits of minutes, a
  colon, and the seconds.
\<close>

definition two_digits :: "nat \<Rightarrow> string" where
  "two_digits n = [digit_char (n div 10), digit_char (n mod 10)]"

definition time_text :: "nat \<Rightarrow> nat \<Rightarrow> string \<Rightarrow> string" where
  "time_text h m seconds = two_digits h @ '':'' @ two_digits m @ '':'' @ seconds"

subsection \<open>Sample inputs\<close>

text \<open>
  Three scheduled appointments on 2026-01-17 (day 20470), at 14:30, 18:00 and 09:00, and a
  clock that reads 13:30 UTC on that day on a server in UTC.
\<close>

definition apt_1430 :: appointment where
  "apt_1430 = \<lparr>id_apt = ''a1'', patient_id = ''p1'', doctor_id = ''d1'',
     appointment_date = 20470, appointment_time = ''14:30:00'', status = ''scheduled''\<rparr>"

definition apt_1800 :: appointment where
  "apt_1800 = \<lparr>id_apt = ''a2'', patient_id = ''p2'', doctor_id = ''d1'',
     appointment_date = 20470, appointment_time = ''18:00:00'', status = ''scheduled''\<rparr>"

definition apt_0900 :: appointment where
  "apt_0900 = \<lparr>id_apt = ''a3'', patient_id = ''p3'', doctor_id = ''d2'',
     appointment_date = 20470, appointment_time = ''09:00:00'', status = ''scheduled''\<rparr>"

definition clock_1330 :: clock where
  "clock_1330 = \<lparr>epoch_ms = 1768656600000, tz_offset_minutes = 0\<rparr>"

definition clock_1330_later :: clock where
  "clock_1330_later = \<lparr>epoch_ms = 1768656615000, tz_offset_minutes = 0\<rparr>"

definition apt_1400 :: appointment where
  "apt_1400 = \<lparr>id_apt = ''a4'', patient_id = ''p4'', doctor_id = ''d2'',
     appointment_date = 20470, appointment_time = ''14:00:00'', status = ''scheduled''\<rparr>"

text \<open>At 13:30 the appointments of 14:30 and of 14:00 are both due, for the tiers 60 and 30.\<close>

definition world_2_due :: world where
  "world_2_due = \<lparr>appointments_tbl = [apt_1430, apt_1400, apt_0900], notifications_tbl = [],
     emails_attempted = [], console = []\<rparr>"

definition world_3 :: world where
  "world_3 = \<lparr>appointments_tbl = [apt_1430, apt_1800, apt_0900], notifications_tbl = [],
     emails_attempted = [], console = []\<rparr>"

text \<open>Collaborators that all answer, and variants in which one of them does not.\<close>

definition env_ok :: env where
  "env_ok = \<lparr>appointments_fetch_error = None,
     profile_full_name = (\<lambda>u. Some ''Asha''),
     doctor_full_name = (\<lambda>u. Some ''Rao''),
     auth_email = (\<lambda>u. Some ''asha@example.org''),
     send_email = (\<lambda>k p. Responded 200 ''ok''),
     insert_accepted = (\<lambda>k n. True)\<rparr>"



definition env_no_names :: env where
  "env_no_names = env_ok\<lparr>profile_full_name := (\<lambda>u. None), doctor_full_name := (\<lambda>u. None)\<rparr>"

definition env_no_email :: env where
  "env_no_email = env_ok\<lparr>auth_email := (\<lambda>u. None)\<rparr>"

definition env_all_fail :: env where
  "env_all_fail = env_ok\<lparr>send_email := (\<lambda>k p. Responded 429 ''rate limited''),
     insert_accepted := (\<lambda>k n. False)\<rparr>"

text \<open>
  A server five and a half hours east of UTC at 20:00 UTC of 2026-01-17, which is 01:30 of
  2026-01-18 (day 20471) on its own clock, and two appointments at 02:30, one on each day.
\<close>

definition clock_east :: clock where
  "clock_east = \<lparr>epoch_ms = 1768680000000, tz_offset_minutes = 330\<rparr>"

definition apt_local_today :: appointment where
  "apt_local_today = \<lparr>id_apt = ''b1'', patient_id = ''p1'', doctor_id = ''d1'',
     appointment_date = 20471, appointment_time = ''02:30:00'', status = ''scheduled''\<rparr>"

definition apt_local_yesterday :: appointment where
  "apt_local_yesterday = \<lparr>id_apt = ''b2'', patient_id = ''p2'', doctor_id = ''d1'',
     appointment_date = 20470, appointment_time = ''02:30:00'', status = ''scheduled''\<rparr>"

definition world_east :: world where
  "world_east = \<lparr>appointments_tbl = [apt_local_today, apt_local_yesterday],
     notifications_tbl = [], emails_attempted = [], console = []\<rparr>"

section \<open>Properties\<close>

subsection \<open>Fields the steps leave alone\<close>

lemma log_fields [simp]:
  "appointments_tbl (log ev w) = appointments_tbl w"
  "notifications_tbl (log ev w) = notifications_tbl w"
  "emails_attempted (log ev w) = emails_attempted w"
  by (simp_all add: log_def)

lemma dispatch_email_fields [simp]:
  "appointments_tbl (dispatch_email e k p w) = appointments_tbl w"
  "notifications_tbl (dispatch_email e k p w) = notifications_tbl w"
  "emails_attempted (dispatch_email e k p w) = emails_attempted w @ [p]"
  by (simp_all add: dispatch_email_def Let_def split: email_outcome.splits)

lemma insert_notification_fields [simp]:
  "appointments_tbl (insert_notification e k n w) = appointments_tbl w"
  "emails_attempted (insert_notification e k n w) = emails_attempted w"
  "notifications_tbl (insert_notification e k n w) =
     notifications_tbl w @ (if insert_accepted e k n then [n] else [])"
  by (simp_all add: insert_notification_def)

lemma process_reminder_sent [simp]:
  "snd (process_reminder e a t s) = snd s @ [reminder_key a t]"
  by (simp add: process_reminder_def Let_def)

lemma process_reminder_appointments [simp]:
  "appointments_tbl (fst (process_reminder e a t s)) = appointments_tbl (fst s)"
  by (simp add: process_reminder_def Let_def split: option.splits)

lemma process_reminder_notifications:
  "notifications_tbl (fst (process_reminder e a t s)) =
     notifications_tbl (fst s) @ row_for e (length (snd s)) a t"
  by (simp add: process_reminder_def Let_def row_for_def split: option.splits)

lemma process_reminder_emails:
  "emails_attempted (fst (process_reminder e a t s)) = emails_attempted (fst s) @ email_for e a t"
  by (simp add: process_reminder_def Let_def email_for_def split: option.splits)

lemma tier_loop_filter:
  "tier_loop e a mu ts s =
     foldl (\<lambda>s t. process_reminder e a t s) s (filter (reminder_due mu) ts)"
  by (induction ts arbitrary: s) simp_all

lemma foldl_map_Pair:
  "foldl (\<lambda>s p. process_reminder e (fst p) (snd p) s) s (map (Pair a) ts) =
     foldl (\<lambda>s t. process_reminder e a t s) s ts"
  by (induction ts arbitrary: s) simp_all

lemma appointment_loop_pairs:
  "appointment_loop e now as s = run_pairs e (due_pairs now as) s"
  by (induction as arbitrary: s)
     (simp_all add: run_pairs_def due_pairs_def due_tiers_def tier_loop_filter foldl_map_Pair)

lemma run_pairs_Nil [simp]: "run_pairs e [] s = s"
  by (simp add: run_pairs_def)

lemma run_pairs_Cons [simp]:
  "run_pairs e (p # ps) s = run_pairs e ps (process_reminder e (fst p) (snd p) s)"
  by (simp add: run_pairs_def)

lemma run_pairs_sent:
  "snd (run_pairs e ps s) = snd s @ map (\<lambda>p. reminder_key (fst p) (snd p)) ps"
  by (induction ps arbitrary: s) simp_all

lemma run_pairs_appointments:
  "appointments_tbl (fst (run_pairs e ps s)) = appointments_tbl (fst s)"
  by (induction ps arbitrary: s) simp_all

lemma run_pairs_notifications:
  "notifications_tbl (fst (run_pairs e ps s)) =
     notifications_tbl (fst s) @ inserted_rows e (length (snd s)) ps"
  by (induction ps arbitrary: s) (simp_all add: process_reminder_notifications)

lemma run_pairs_emails:
  "emails_attempted (fst (run_pairs e ps s)) = emails_attempted (fst s) @ dispatched_emails e ps"
  by (induction ps arbitrary: s) (simp_all add: process_reminder_emails dispatched_emails_def)

lemma try_block_ok:
  assumes "appointments_fetch_error e = None"
  shows "fst (try_block e now w) = Inr (length (due_pairs now (candidates now w)))"
    and "appointments_tbl (snd (try_block e now w)) = appointments_tbl w"
    and "notifications_tbl (snd (try_block e now w)) =
           notifications_tbl w @ inserted_rows e 0 (due_pairs now (candidates now w))"
    and "emails_attempted (snd (try_block e now w)) =
           emails_attempted w @ dispatched_emails e (due_pairs now (candidates now w))"
  using assms
  by (simp_all add: try_block_def Let_def candidates_def appointment_loop_pairs run_pairs_sent
      run_pairs_appointments run_pairs_notifications run_pairs_emails)

lemma try_block_failed:
  assumes "appointments_fetch_error e = Some err"
  shows "fst (try_block e now w) = Inl err"
    and "appointments_tbl (snd (try_block e now w)) = appointments_tbl w"
    and "notifications_tbl (snd (try_block e now w)) = notifications_tbl w"
    and "emails_attempted (snd (try_block e now w)) = emails_attempted w"
  using assms by (simp_all add: try_block_def Let_def)

lemma handler_unfold:
  "handler e now method w =
     (if method = ''OPTIONS'' then (Response 200 Null_body, w)
      else case fst (try_block e now w) of
             Inr n \<Rightarrow> (Response 200 (Success_body True n), snd (try_block e now w))
           | Inl err \<Rightarrow> (Response 500 (Error_body (error_message err)),
                          log (Log_handler_error err) (snd (try_block e now w))))"
  by (cases "try_block e now w") (simp add: handler_def split: sum.splits)

lemma handler_ok:
  assumes "method \<noteq> ''OPTIONS''" and "appointments_fetch_error e = None"
  shows "fst (handler e now method w) =
           Response 200 (Success_body True (length (due_pairs now (candidates now w))))"
    and "appointments_tbl (snd (handler e now method w)) = appointments_tbl w"
    and "notifications_tbl (snd (handler e now method w)) =
           notifications_tbl w @ inserted_rows e 0 (due_pairs now (candidates now w))"
    and "emails_attempted (snd (handler e now method w)) =
           emails_attempted w @ dispatched_emails e (due_pairs now (candidates now w))"
  using assms by (simp_all add: handler_unfold try_block_ok)

lemma handler_failed:
  assumes "method \<noteq> ''OPTIONS''" and "appointments_fetch_error e = Some err"
  shows "fst (handler e now method w) = Response 500 (Error_body (error_message err))"
    and "appointments_tbl (snd (handler e now method w)) = appointments_tbl w"
    and "notifications_tbl (snd (handler e now method w)) = notifications_tbl w"
    and "emails_attempted (snd (handler e now method w)) = emails_attempted w"
  using assms by (simp_all add: handler_unfold try_block_failed)

lemma handler_options:
  "handler e now ''OPTIONS'' w = (Response 200 Null_body, w)"
  by (simp add: handler_def)

subsection \<open>Independence of the two dispatch channels\<close>

lemma notification_row_send_email [simp]:
  "notification_row (e\<lparr>send_email := f\<rparr>) a t = notification_row e a t"
  by (simp add: notification_row_def resolved_doctorName_def)

lemma inserted_rows_send_email [simp]:
  "inserted_rows (e\<lparr>send_email := f\<rparr>) k ps = inserted_rows e k ps"
  by (induction ps arbitrary: k) (simp_all add: row_for_def)

lemma email_for_insert_accepted [simp]:
  "email_for (e\<lparr>insert_accepted := g\<rparr>) a t = email_for e a t"
  by (simp add: email_for_def emailPayload_def resolved_doctorName_def split: option.splits)

lemma email_for_send_email [simp]:
  "email_for (e\<lparr>send_email := f\<rparr>) a t = email_for e a t"
  by (simp add: email_for_def emailPayload_def resolved_doctorName_def split: option.splits)

lemma dispatched_emails_send_email [simp]:
  "dispatched_emails (e\<lparr>send_email := f\<rparr>) ps = dispatched_emails e ps"
  by (simp add: dispatched_emails_def)

lemma dispatched_emails_insert_accepted [simp]:
  "dispatched_emails (e\<lparr>insert_accepted := g\<rparr>) ps = dispatched_emails e ps"
  by (simp add: dispatched_emails_def)

lemma inserted_rows_run_accepted:
  "run_accepted e k ps \<Longrightarrow>
   inserted_rows e k ps = map (\<lambda>p. notification_row e (fst p) (snd p)) ps"
  by (induction ps arbitrary: k) (simp_all add: row_for_def)

lemma run_accepted_all:
  "\<forall>k r. insert_accepted e k r \<Longrightarrow> run_accepted e k ps"
  by (induction ps arbitrary: k) simp_all

lemma inserted_rows_all_accepted:
  "\<forall>k r. insert_accepted e k r \<Longrightarrow>
   inserted_rows e k ps = map (\<lambda>p. notification_row e (fst p) (snd p)) ps"
  by (induction ps arbitrary: k) (simp_all add: row_for_def)

subsection \<open>Reading a time of day\<close>

lemma is_digit_digit_char: "d < 10 \<Longrightarrow> is_digit (digit_char d)"
  by (simp add: is_digit_def digit_char_def)

lemma digit_of_digit_char: "d < 10 \<Longrightarrow> digit_of (digit_char d) = d"
  by (simp add: digit_of_def digit_char_def)

lemma digit_char_not_colon: "d < 10 \<Longrightarrow> digit_char d \<noteq> CHR '':''"
proof
  assume d: "d < 10" and eq: "digit_char d = CHR '':''"
  from eq have "(of_char (digit_char d) :: nat) = of_char CHR '':''" by simp
  with d show False by (simp add: digit_char_def)
qed

lemma Number_js_two_digits: "n < 100 \<Longrightarrow> Number_js (two_digits n) = Some (int n)"
  by (simp add: Number_js_def two_digits_def is_digit_digit_char digit_of_digit_char)

lemma split_on_two_digits:
  "n < 100 \<Longrightarrow>
   split_on CHR '':'' (two_digits n @ CHR '':'' # rest) = two_digits n # split_on CHR '':'' rest"
  by (simp add: two_digits_def digit_char_not_colon)

lemma appointmentTimeInMinutes_time_text:
  "h < 100 \<Longrightarrow> m < 100 \<Longrightarrow>
   appointmentTimeInMinutes (time_text h m seconds) = Some (int h * 60 + int m)"
  by (simp add: appointmentTimeInMinutes_def time_text_def split_on_two_digits
      Number_js_two_digits)

lemma currentTimeInMinutes_midnight:
  "currentTimeInMinutes now = (local_ms now div 60000) mod 1440"
proof -
  define x where "x = local_ms now div 60000"
  have "local_ms now div 3600000 = x div 60"
    by (simp add: x_def zdiv_zmult2_eq)
  moreover have "x mod (60 * 24) = 60 * (x div 60 mod 24) + x mod 60"
    by (rule zmod_zmult2_eq) simp
  ultimately show ?thesis
    by (simp add: currentTimeInMinutes_def getHours_def getMinutes_def x_def)
qed

lemma reminder_due_iff:
  "reminder_due (minutesUntilAppointment now a) t \<longleftrightarrow>
     (\<exists>T. appointmentTimeInMinutes (appointment_time a) = Some T \<and>
          t - 1 \<le> T - currentTimeInMinutes now \<and> T - currentTimeInMinutes now \<le> t + 1)"
  by (auto simp: reminder_due_def minutesUntilAppointment_def split: option.splits)

subsection \<open>Two readings of the clock in one minute\<close>

lemma local_minutes:
  "local_ms c div 60000 = epoch_ms c div 60000 + tz_offset_minutes c"
  by (simp add: local_ms_def)

lemma same_minute_reads:
  assumes "same_minute c c'"
  shows "toISOString_date c' = toISOString_date c"
    and "getHours c' = getHours c"
    and "getMinutes c' = getMinutes c"
proof -
  have e: "epoch_ms c' div 60000 = epoch_ms c div 60000"
    and l: "local_ms c' div 60000 = local_ms c div 60000"
    using assms by (simp_all add: same_minute_def local_minutes)
  have d: "epoch_ms x div 86400000 = epoch_ms x div 60000 div 1440" for x
    by (simp add: zdiv_zmult2_eq)
  show "toISOString_date c' = toISOString_date c"
    by (simp only: toISOString_date_def d e)
  have h: "local_ms x div 3600000 = local_ms x div 60000 div 60" for x
    by (simp add: zdiv_zmult2_eq)
  show "getHours c' = getHours c"
    by (simp only: getHours_def h l)
  show "getMinutes c' = getMinutes c"
    by (simp add: getMinutes_def l)
qed

lemma same_minute_due_pairs:
  assumes "same_minute c c'"
  shows "due_pairs c' as = due_pairs c as"
proof -
  have "currentTimeInMinutes c' = currentTimeInMinutes c"
    using same_minute_reads [OF assms] by (simp add: currentTimeInMinutes_def)
  then have "minutesUntilAppointment c' a = minutesUntilAppointment c a" for a
    by (simp add: minutesUntilAppointment_def split: option.splits)
  then show ?thesis
    by (simp add: due_pairs_def due_tiers_def)
qed

lemma same_minute_candidates:
  assumes "same_minute c c'" and "appointments_tbl w' = appointments_tbl w"
  shows "candidates c' w' = candidates c w"
  using same_minute_reads [OF assms(1)] assms(2) by (simp add: candidates_def)

subsection \<open>The sample inputs\<close>

lemma world_3_fields:
  "notifications_tbl world_3 = []" "emails_attempted world_3 = []"
  by (simp_all add: world_3_def)

lemma sample_candidates:
  "candidates clock_1330 world_3 = [apt_1430, apt_1800, apt_0900]"
  by code_simp

lemma world_2_due_fields:
  "notifications_tbl world_2_due = []" "emails_attempted world_2_due = []"
  by (simp_all add: world_2_due_def)

lemma sample_two_due_pairs:
  "due_pairs clock_1330 (candidates clock_1330 world_2_due) = [(apt_1430, 60), (apt_1400, 30)]"
  by code_simp

lemma sample_due_pairs:
  "due_pairs clock_1330 (candidates clock_1330 world_3) = [(apt_1430, 60)]"
  by code_simp

section \<open>The claims\<close>

subsection \<open>C1: the tolerance window of a tier\<close>

text \<open>
  Claim C1. For an appointment whose time column reads \<open>hh:mm:ss\<close>, the minutes until the
  appointment are the appointment's minutes since midnight, \<open>60 * hh + mm\<close>, minus the
  current minutes since midnight on the local clock, \<open>60 * getHours + getMinutes\<close>. A tier
  \<open>t\<close> passes the test of line 59 exactly when \<open>t - 1 \<le> minutesUntil \<le> t + 1\<close>, and the
  tiers the inner loop handles are the tiers among 60, 30 and 10 in that window. The 60-minute
  tier is due at 59, 60 and 61 minutes and not at 58 or 62.
\<close>

theorem reminder_tier_window:
  assumes "h < 100" and "m < 100" and "appointment_time a = time_text h m seconds"
  shows "minutesUntilAppointment now a =
           Some ((int h * 60 + int m) - (getHours now * 60 + getMinutes now))
       \<and> (reminder_due (minutesUntilAppointment now a) t \<longleftrightarrow>
            t - 1 \<le> (int h * 60 + int m) - (getHours now * 60 + getMinutes now) \<and>
            (int h * 60 + int m) - (getHours now * 60 + getMinutes now) \<le> t + 1)
       \<and> (t \<in> set (due_tiers now a) \<longleftrightarrow>
            t \<in> {60, 30, 10} \<and>
            t - 1 \<le> (int h * 60 + int m) - (getHours now * 60 + getMinutes now) \<and>
            (int h * 60 + int m) - (getHours now * 60 + getMinutes now) \<le> t + 1)
       \<and> reminder_due (Some 59) 60 \<and> reminder_due (Some 60) 60 \<and> reminder_due (Some 61) 60
       \<and> \<not> reminder_due (Some 58) 60 \<and> \<not> reminder_due (Some 62) 60
       \<and> getHours now * 60 + getMinutes now = (local_ms now div 60000) mod 1440"
proof -
  have midnight: "getHours now * 60 + getMinutes now = (local_ms now div 60000) mod 1440"
    using currentTimeInMinutes_midnight [of now] by (simp add: currentTimeInMinutes_def)
  have T: "appointmentTimeInMinutes (appointment_time a) = Some (int h * 60 + int m)"
    using assms by (simp add: appointmentTimeInMinutes_time_text)
  have mu: "minutesUntilAppointment now a =
      Some ((int h * 60 + int m) - (getHours now * 60 + getMinutes now))"
    by (simp add: minutesUntilAppointment_def T currentTimeInMinutes_def)
  have window: "minutesUntilAppointment now a =
           Some ((int h * 60 + int m) - (getHours now * 60 + getMinutes now))
       \<and> (reminder_due (minutesUntilAppointment now a) t \<longleftrightarrow>
            t - 1 \<le> (int h * 60 + int m) - (getHours now * 60 + getMinutes now) \<and>
            (int h * 60 + int m) - (getHours now * 60 + getMinutes now) \<le> t + 1)
       \<and> (t \<in> set (due_tiers now a) \<longleftrightarrow>
            t \<in> {60, 30, 10} \<and>
            t - 1 \<le> (int h * 60 + int m) - (getHours now * 60 + getMinutes now) \<and>
            (int h * 60 + int m) - (getHours now * 60 + getMinutes now) \<le> t + 1)
       \<and> reminder_due (Some 59) 60 \<and> reminder_due (Some 60) 60 \<and> reminder_due (Some 61) 60
       \<and> \<not> reminder_due (Some 58) 60 \<and> \<not> reminder_due (Some 62) 60"
    unfolding mu due_tiers_def
    by (auto simp: reminder_due_def reminderMinutes_def)
  show ?thesis
    using window midnight by blast
qed

theorem reminder_tier_window_witness:
  "(14::nat) < 100 \<and> (30::nat) < 100 \<and> appointment_time apt_1430 = time_text 14 30 ''00''
   \<and> minutesUntilAppointment clock_1330 apt_1430 = Some 60
   \<and> reminder_due (minutesUntilAppointment clock_1330 apt_1430) 60
   \<and> \<not> reminder_due (minutesUntilAppointment clock_1330 apt_1430) 30
   \<and> due_tiers clock_1330 apt_1430 = [60]"
proof -
  have h: "(14::nat) < 100" and m: "(30::nat) < 100" by simp_all
  have t: "appointment_time apt_1430 = time_text 14 30 ''00''"
    by code_simp
  have c: "getHours clock_1330 * 60 + getMinutes clock_1330 = 810"
    by code_simp
  have d: "due_tiers clock_1330 apt_1430 = [60]"
    by code_simp
  show ?thesis
    using reminder_tier_window [OF h m t, of clock_1330 60]
      reminder_tier_window [OF h m t, of clock_1330 30] h m t c d
    by (simp add: reminder_due_def)
qed

subsection \<open>C10: the windows are disjoint\<close>

text \<open>
  Claim C10. The windows of the three tiers are the intervals 59 to 61, 29 to 31 and 9 to 11,
  which are pairwise disjoint, so at most one tier is due for an appointment in one run,
  whatever the minutes until it (NaN included); a negative number of minutes matches no tier.
\<close>

theorem tier_windows_disjoint:
  "{m. reminder_due (Some m) 60} = {59..61}
   \<and> {m. reminder_due (Some m) 30} = {29..31}
   \<and> {m. reminder_due (Some m) 10} = {9..11}
   \<and> {59..61} \<inter> {29..31} = ({}::int set)
   \<and> {59..61} \<inter> {9..11} = ({}::int set)
   \<and> {29..31} \<inter> {9..11} = ({}::int set)
   \<and> length (filter (reminder_due mu) reminderMinutes) \<le> 1
   \<and> length (due_tiers now a) \<le> 1
   \<and> (m < 0 \<longrightarrow> filter (reminder_due (Some m)) reminderMinutes = [])"
proof -
  have one: "length (filter (reminder_due x) reminderMinutes) \<le> 1" for x
    by (cases x) (simp_all add: reminder_due_def reminderMinutes_def)
  have w60: "{m. reminder_due (Some m) 60} = {59..61}"
    and w30: "{m. reminder_due (Some m) 30} = {29..31}"
    and w10: "{m. reminder_due (Some m) 10} = {9..11}"
    by (auto simp: reminder_due_def)
  have dis: "{59..61} \<inter> {29..31} = ({}::int set)" "{59..61} \<inter> {9..11} = ({}::int set)"
    "{29..31} \<inter> {9..11} = ({}::int set)"
    by auto
  have neg: "m < 0 \<longrightarrow> filter (reminder_due (Some m)) reminderMinutes = []"
    by (simp add: reminder_due_def reminderMinutes_def)
  show ?thesis
    using one [of mu] one [of "minutesUntilAppointment now a"] w60 w30 w10 dis neg
    unfolding due_tiers_def by blast
qed

theorem tier_windows_disjoint_witness:
  "(-5::int) < 0 \<and> filter (reminder_due (Some (-5))) reminderMinutes = []
   \<and> length (due_tiers clock_1330 apt_0900) \<le> 1
   \<and> minutesUntilAppointment clock_1330 apt_0900 = Some (-270)"
proof -
  have "minutesUntilAppointment clock_1330 apt_0900 = Some (-270)"
    by code_simp
  then show ?thesis
    using tier_windows_disjoint [of "Some (-5)" clock_1330 apt_0900 "-5"] by simp
qed

subsection \<open>C2: a failed candidate fetch\<close>




subsection \<open>C3: the two dispatches do not depend on each other\<close>

text \<open>
  Claim C3. Whatever the e-mail function does (it may reject, or answer with any status), the
  notifications table after the run is the same and so are the e-mails posted for the other
  pairs, and for each due pair the row is inserted as the store decides. Whatever the store
  answers to the inserts, the e-mails posted are the same. Neither changes the response, that
  is the number of pairs processed, and every due pair is pushed to \<open>sentReminders\<close>.
\<close>

theorem dispatch_failures_isolated:
  "notifications_tbl (snd (handler (e\<lparr>send_email := f\<rparr>) now method w))
     = notifications_tbl (snd (handler e now method w))
   \<and> emails_attempted (snd (handler (e\<lparr>send_email := f\<rparr>) now method w))
     = emails_attempted (snd (handler e now method w))
   \<and> emails_attempted (snd (handler (e\<lparr>insert_accepted := g\<rparr>) now method w))
     = emails_attempted (snd (handler e now method w))
   \<and> fst (handler (e\<lparr>send_email := f, insert_accepted := g\<rparr>) now method w)
     = fst (handler e now method w)
   \<and> notifications_tbl (fst (process_reminder (e\<lparr>send_email := f\<rparr>) a t s))
     = notifications_tbl (fst s) @
         (if insert_accepted e (length (snd s)) (notification_row e a t)
          then [notification_row e a t] else [])
   \<and> emails_attempted (fst (process_reminder (e\<lparr>insert_accepted := g\<rparr>) a t s))
     = emails_attempted (fst s) @ email_for e a t
   \<and> snd (process_reminder (e\<lparr>send_email := f, insert_accepted := g\<rparr>) a t s)
     = snd s @ [reminder_key a t]"
proof -
  have pair: "notifications_tbl (fst (process_reminder (e\<lparr>send_email := f\<rparr>) a t s))
     = notifications_tbl (fst s) @
         (if insert_accepted e (length (snd s)) (notification_row e a t)
          then [notification_row e a t] else [])"
    "emails_attempted (fst (process_reminder (e\<lparr>insert_accepted := g\<rparr>) a t s))
     = emails_attempted (fst s) @ email_for e a t"
    by (simp_all add: process_reminder_notifications process_reminder_emails row_for_def)
  have run: "notifications_tbl (snd (handler (e\<lparr>send_email := f\<rparr>) now method w))
       = notifications_tbl (snd (handler e now method w))
     \<and> emails_attempted (snd (handler (e\<lparr>send_email := f\<rparr>) now method w))
       = emails_attempted (snd (handler e now method w))
     \<and> emails_attempted (snd (handler (e\<lparr>insert_accepted := g\<rparr>) now method w))
       = emails_attempted (snd (handler e now method w))
     \<and> fst (handler (e\<lparr>send_email := f, insert_accepted := g\<rparr>) now method w)
       = fst (handler e now method w)"
  proof (cases "method = ''OPTIONS''")
    case True
    then show ?thesis by (simp add: handler_options)
  next
    case False
    then show ?thesis
      by (cases "appointments_fetch_error e") (simp_all add: handler_failed handler_ok)
  qed
  show ?thesis using pair run by simp
qed

text \<open>The same at the sample input, with an e-mail function that rejects and a store that refuses.\<close>

theorem dispatch_failures_isolated_witness:
  "notifications_tbl
     (snd (handler (env_ok\<lparr>send_email := (\<lambda>k p. Fetch_rejected ''network'')\<rparr>)
        clock_1330 ''POST'' world_3))
     = [notification_row env_ok apt_1430 60]
   \<and> emails_attempted
     (snd (handler (env_ok\<lparr>insert_accepted := (\<lambda>k r. False)\<rparr>) clock_1330 ''POST'' world_3))
     = [emailPayload env_ok apt_1430 60 ''asha@example.org'']
   \<and> fst (handler (env_ok\<lparr>send_email := (\<lambda>k p. Fetch_rejected ''network''),
                          insert_accepted := (\<lambda>k r. False)\<rparr>) clock_1330 ''POST'' world_3)
     = Response 200 (Success_body True 1)"
proof -
  have n: "notifications_tbl (snd (handler env_ok clock_1330 ''POST'' world_3))
      = [notification_row env_ok apt_1430 60]"
    and e: "emails_attempted (snd (handler env_ok clock_1330 ''POST'' world_3))
      = [emailPayload env_ok apt_1430 60 ''asha@example.org'']"
    and r: "fst (handler env_ok clock_1330 ''POST'' world_3) = Response 200 (Success_body True 1)"
    by code_simp+
  show ?thesis
    using dispatch_failures_isolated [of "\<lambda>k p. Fetch_rejected ''network''" env_ok
        clock_1330 "''POST''" world_3 "\<lambda>k r. False"] n e r
    by simp
qed

subsection \<open>C4: names and address that do not resolve\<close>

text \<open>
  Claim C4 says that the e-mail of a due pair is skipped when the patient's or the doctor's
  name does not resolve. At the sample input neither name resolves and the address does: the
  e-mail is posted, with the names \<open>Patient\<close> and \<open>Doctor\<close> that lines 75 and 87 put in their
  place.
\<close>

theorem unresolved_names_counterexample:
  "profile_full_name env_no_names (patient_id apt_1430) = None
   \<and> doctor_full_name env_no_names (doctor_id apt_1430) = None
   \<and> due_pairs clock_1330 (candidates clock_1330 world_3) = [(apt_1430, 60)]
   \<and> emails_attempted (snd (handler env_no_names clock_1330 ''POST'' world_3)) =
       [\<lparr>type_eml = ''appointment_reminder'', to_eml = ''asha@example.org'',
         patientName = ''Patient'', doctorName = ''Doctor'', date_eml = 20470,
         time_eml = ''14:30:00'', reminderMinutes_eml = 60\<rparr>]"
  by code_simp

text \<open>
  Claim C4, amended. For every due pair the e-mail is skipped exactly when the patient's
  address is absent or empty; a name that does not resolve is replaced by \<open>Patient\<close> or
  \<open>Doctor\<close> and does not stop the e-mail. In every case the notification insert is made, and
  the row is created when the store accepts it.
\<close>

theorem email_skipped_only_without_address:
  "emails_attempted (fst (process_reminder e a t s)) =
     emails_attempted (fst s) @
       (case auth_email e (patient_id a) of
          None \<Rightarrow> []
        | Some patientEmail \<Rightarrow>
            if patientEmail = [] then []
            else [\<lparr>type_eml = ''appointment_reminder'', to_eml = patientEmail,
                   patientName = or_default (profile_full_name e (patient_id a)) ''Patient'',
                   doctorName = or_default (doctor_full_name e (doctor_id a)) ''Doctor'',
                   date_eml = appointment_date a, time_eml = appointment_time a,
                   reminderMinutes_eml = t\<rparr>])
   \<and> notifications_tbl (fst (process_reminder e a t s)) =
     notifications_tbl (fst s) @
       (if insert_accepted e (length (snd s)) (notification_row e a t)
        then [notification_row e a t] else [])"
  by (simp add: process_reminder_emails process_reminder_notifications email_for_def
      emailPayload_def resolved_doctorName_def row_for_def split: option.splits)

theorem email_skipped_only_without_address_witness:
  "emails_attempted (fst (process_reminder env_no_email apt_1430 60 (world_3, []))) = []
   \<and> length (notifications_tbl (fst (process_reminder env_no_email apt_1430 60 (world_3, []))))
       = 1
   \<and> map patientName (emails_attempted (fst (process_reminder env_no_names apt_1430 60 (world_3, []))))
       = [''Patient'']"
proof -
  have a: "auth_email env_no_email (patient_id apt_1430) = None"
    and b: "insert_accepted env_no_email 0 (notification_row env_no_email apt_1430 60)"
    and c: "auth_email env_no_names (patient_id apt_1430) = Some ''asha@example.org''"
    and d: "profile_full_name env_no_names (patient_id apt_1430) = None"
    by (simp_all add: env_no_email_def env_no_names_def env_ok_def)
  show ?thesis
    using email_skipped_only_without_address [of env_no_email apt_1430 60 "(world_3, [])"]
      email_skipped_only_without_address [of env_no_names apt_1430 60 "(world_3, [])"]
      a b c d
    by (simp add: world_3_fields or_default_def)
qed

subsection \<open>C5: the date of the candidates\<close>

text \<open>
  Claim C5 takes the candidates to be the scheduled appointments on the server's local date.
  The source compares the date column with \<open>toISOString\<close>, which is the date in UTC, while the
  hour and the minute come from the local clock. On a server east of UTC, between local
  midnight and midnight UTC, the scheduled appointment of the local day is no candidate, and
  the one of the day before is a candidate and is reminded.
\<close>

theorem candidates_follow_utc_date:
  "local_date clock_east = 20471
   \<and> toISOString_date clock_east = 20470
   \<and> getHours clock_east = 1 \<and> getMinutes clock_east = 30
   \<and> appointment_date apt_local_today = local_date clock_east
   \<and> status apt_local_today = ''scheduled''
   \<and> appointment_date apt_local_yesterday = 20470
   \<and> candidates clock_east world_east = [apt_local_yesterday]
   \<and> fst (handler env_ok clock_east ''POST'' world_east) = Response 200 (Success_body True 1)
   \<and> map related_id (notifications_tbl (snd (handler env_ok clock_east ''POST'' world_east)))
       = [id_apt apt_local_yesterday]
   \<and> map title (notifications_tbl (snd (handler env_ok clock_east ''POST'' world_east)))
       = [''Appointment in 60 minutes'']"
  by code_simp

subsection \<open>C6: the count in the response\<close>

text \<open>
  Claim C6 says that \<open>remindersSent\<close> counts the pairs whose notification row was created and
  that the failures of single pairs are returned. At the sample input the e-mail function
  answers 429 and the store refuses the insert: the body is \<open>{ success: true, remindersSent: 1 }\<close>
  with no row created, and it is the body of the run in which nothing fails.
\<close>

theorem remindersSent_counterexample:
  "fst (handler env_all_fail clock_1330 ''POST'' world_3) = Response 200 (Success_body True 1)
   \<and> notifications_tbl (snd (handler env_all_fail clock_1330 ''POST'' world_3)) = []
   \<and> send_email env_all_fail 0 (emailPayload env_all_fail apt_1430 60 ''asha@example.org'')
       = Responded 429 ''rate limited''
   \<and> fst (handler env_all_fail clock_1330 ''POST'' world_3)
       = fst (handler env_ok clock_1330 ''POST'' world_3)"
  by code_simp

text \<open>
  Claim C6, amended. A run whose candidate fetch succeeds answers with status 200 and a body
  of exactly the two fields \<open>success: true\<close> and \<open>remindersSent: n\<close>: no failure of a single
  pair is returned, and whatever the e-mail function does the body is the same. When the store
  accepts every insert of the run, \<open>n\<close> is the number of due pairs, and one row was created
  for each of them.
\<close>

theorem remindersSent_counts_due_pairs:
  assumes "method \<noteq> ''OPTIONS''" and "appointments_fetch_error e = None"
  shows "\<exists>n. fst (handler e now method w) = Response 200 (Success_body True n)
           \<and> fst (handler (e\<lparr>send_email := f\<rparr>) now method w)
               = Response 200 (Success_body True n)
           \<and> (run_accepted e 0 (due_pairs now (candidates now w)) \<longrightarrow>
                n = length (due_pairs now (candidates now w))
                \<and> notifications_tbl (snd (handler e now method w)) =
                    notifications_tbl w @
                      map (\<lambda>p. notification_row e (fst p) (snd p))
                        (due_pairs now (candidates now w)))"
  using assms by (simp add: handler_ok inserted_rows_run_accepted)

theorem remindersSent_counts_due_pairs_witness:
  "''POST'' \<noteq> ''OPTIONS'' \<and> appointments_fetch_error env_ok = None
   \<and> run_accepted env_ok 0 (due_pairs clock_1330 (candidates clock_1330 world_2_due))
   \<and> fst (handler env_ok clock_1330 ''POST'' world_2_due) = Response 200 (Success_body True 2)
   \<and> fst (handler (env_ok\<lparr>send_email := (\<lambda>k p. Fetch_rejected ''network'')\<rparr>)
          clock_1330 ''POST'' world_2_due) = Response 200 (Success_body True 2)
   \<and> notifications_tbl (snd (handler env_ok clock_1330 ''POST'' world_2_due)) =
       [notification_row env_ok apt_1430 60, notification_row env_ok apt_1400 30]"
proof -
  have m: "''POST'' \<noteq> ''OPTIONS''" by simp
  have f: "appointments_fetch_error env_ok = None" by (simp add: env_ok_def)
  have acc: "run_accepted env_ok 0 (due_pairs clock_1330 (candidates clock_1330 world_2_due))"
    by (simp add: sample_two_due_pairs env_ok_def)
  show ?thesis
    using remindersSent_counts_due_pairs [OF m f, of clock_1330 world_2_due
        "\<lambda>k p. Fetch_rejected ''network''"] m f acc
    by (auto simp: sample_two_due_pairs world_2_due_fields)
qed

subsection \<open>C7: every due pair is processed once\<close>

text \<open>
  Claim C7 says that with three candidates of which one matches a tier, exactly one e-mail
  dispatch is attempted. At the sample input the patient of the due appointment has no
  address: the row is inserted and no e-mail is posted, by the test of line 81.
\<close>

theorem single_due_pair_counterexample:
  "length (candidates clock_1330 world_3) = 3
   \<and> due_pairs clock_1330 (candidates clock_1330 world_3) = [(apt_1430, 60)]
   \<and> auth_email env_no_email (patient_id apt_1430) = None
   \<and> emails_attempted (snd (handler env_no_email clock_1330 ''POST'' world_3)) = []
   \<and> length (notifications_tbl (snd (handler env_no_email clock_1330 ''POST'' world_3))) = 1"
  by code_simp

text \<open>
  Claim C7, amended. A run whose candidate fetch succeeds processes every due pair of
  appointment and tier exactly once, in the order of the two loops, whatever the number of
  candidates and of due pairs: it reports the number of due pairs; \<open>sentReminders\<close> gets one
  key for each due pair; one e-mail dispatch is attempted for each due pair whose patient's
  address resolves to a non-empty text and none for a pair whose address does not; the rows
  inserted are those of the due pairs, each as the store answers its insert, which is one row
  for each due pair when the store accepts the inserts of the run. With three candidates of
  which exactly one pair is due, exactly one notification row is created (the store accepting
  the insert), and exactly one e-mail dispatch is attempted when the address resolves, none
  when it does not.
\<close>

theorem each_due_pair_processed_once:
  assumes "method \<noteq> ''OPTIONS''" and "appointments_fetch_error e = None"
  shows "fst (handler e now method w) =
           Response 200 (Success_body True (length (due_pairs now (candidates now w))))
       \<and> snd (appointment_loop e now (candidates now w) (w0, [])) =
           map (\<lambda>p. reminder_key (fst p) (snd p)) (due_pairs now (candidates now w))
       \<and> emails_attempted (snd (handler e now method w)) =
           emails_attempted w @
             concat (map (\<lambda>p. case auth_email e (patient_id (fst p)) of
                                 None \<Rightarrow> []
                               | Some patientEmail \<Rightarrow>
                                   if patientEmail = [] then []
                                   else [emailPayload e (fst p) (snd p) patientEmail])
                       (due_pairs now (candidates now w)))
       \<and> notifications_tbl (snd (handler e now method w)) =
           notifications_tbl w @ inserted_rows e 0 (due_pairs now (candidates now w))
       \<and> (run_accepted e 0 (due_pairs now (candidates now w)) \<longrightarrow>
            notifications_tbl (snd (handler e now method w)) =
              notifications_tbl w @
                map (\<lambda>p. notification_row e (fst p) (snd p)) (due_pairs now (candidates now w)))
       \<and> (candidates now w = [a1, a2, a3] \<and> due_pairs now [a1, a2, a3] = [(a, t)]
              \<and> insert_accepted e 0 (notification_row e a t) \<longrightarrow>
            notifications_tbl (snd (handler e now method w)) =
              notifications_tbl w @ [notification_row e a t]
            \<and> emails_attempted (snd (handler e now method w)) =
              emails_attempted w @
                (case auth_email e (patient_id a) of
                   None \<Rightarrow> []
                 | Some patientEmail \<Rightarrow>
                     if patientEmail = [] then [] else [emailPayload e a t patientEmail]))"
proof -
  let ?ps = "due_pairs now (candidates now w)"
  have count: "fst (handler e now method w) = Response 200 (Success_body True (length ?ps))"
    using assms by (simp add: handler_ok)
  have keys: "snd (appointment_loop e now (candidates now w) (w0, [])) =
      map (\<lambda>p. reminder_key (fst p) (snd p)) ?ps"
    by (simp add: appointment_loop_pairs run_pairs_sent)
  have emails: "emails_attempted (snd (handler e now method w)) =
      emails_attempted w @
        concat (map (\<lambda>p. case auth_email e (patient_id (fst p)) of
                            None \<Rightarrow> []
                          | Some patientEmail \<Rightarrow>
                              if patientEmail = [] then []
                              else [emailPayload e (fst p) (snd p) patientEmail]) ?ps)"
    using assms by (simp add: handler_ok dispatched_emails_def email_for_def)
  have rows: "notifications_tbl (snd (handler e now method w)) =
      notifications_tbl w @ inserted_rows e 0 ?ps"
    using assms by (simp add: handler_ok)
  have accepted: "run_accepted e 0 ?ps \<longrightarrow>
      notifications_tbl (snd (handler e now method w)) =
        notifications_tbl w @ map (\<lambda>p. notification_row e (fst p) (snd p)) ?ps"
    by (simp add: rows inserted_rows_run_accepted)
  have three: "candidates now w = [a1, a2, a3] \<and> due_pairs now [a1, a2, a3] = [(a, t)]
        \<and> insert_accepted e 0 (notification_row e a t) \<longrightarrow>
      notifications_tbl (snd (handler e now method w)) =
        notifications_tbl w @ [notification_row e a t]
      \<and> emails_attempted (snd (handler e now method w)) =
        emails_attempted w @
          (case auth_email e (patient_id a) of
             None \<Rightarrow> []
           | Some patientEmail \<Rightarrow>
               if patientEmail = [] then [] else [emailPayload e a t patientEmail])"
    by (auto simp: rows emails row_for_def split: option.splits)
  show ?thesis
    using count keys emails rows accepted three by blast
qed

theorem each_due_pair_processed_once_witness:
  "''POST'' \<noteq> ''OPTIONS'' \<and> appointments_fetch_error env_ok = None
   \<and> due_pairs clock_1330 (candidates clock_1330 world_2_due)
       = [(apt_1430, 60), (apt_1400, 30)]
   \<and> fst (handler env_ok clock_1330 ''POST'' world_2_due) = Response 200 (Success_body True 2)
   \<and> snd (appointment_loop env_ok clock_1330 (candidates clock_1330 world_2_due)
          (world_2_due, []))
       = [reminder_key apt_1430 60, reminder_key apt_1400 30]
   \<and> notifications_tbl (snd (handler env_ok clock_1330 ''POST'' world_2_due)) =
       [notification_row env_ok apt_1430 60, notification_row env_ok apt_1400 30]
   \<and> emails_attempted (snd (handler env_ok clock_1330 ''POST'' world_2_due)) =
       [emailPayload env_ok apt_1430 60 ''asha@example.org'',
        emailPayload env_ok apt_1400 30 ''asha@example.org'']
   \<and> candidates clock_1330 world_3 = [apt_1430, apt_1800, apt_0900]
   \<and> due_pairs clock_1330 [apt_1430, apt_1800, apt_0900] = [(apt_1430, 60)]
   \<and> notifications_tbl (snd (handler env_ok clock_1330 ''POST'' world_3)) =
       [notification_row env_ok apt_1430 60]
   \<and> emails_attempted (snd (handler env_ok clock_1330 ''POST'' world_3)) =
       [emailPayload env_ok apt_1430 60 ''asha@example.org'']"
proof -
  have m: "''POST'' \<noteq> ''OPTIONS''" by simp
  have f: "appointments_fetch_error env_ok = None" by (simp add: env_ok_def)
  have d: "due_pairs clock_1330 [apt_1430, apt_1800, apt_0900] = [(apt_1430, 60)]"
    using sample_due_pairs by (simp add: sample_candidates)
  have acc: "run_accepted env_ok 0 [(apt_1430, 60), (apt_1400, 30)]"
    and i: "insert_accepted env_ok 0 (notification_row env_ok apt_1430 60)"
    and a: "auth_email env_ok p = Some ''asha@example.org''" for p
    by (simp_all add: env_ok_def)
  show ?thesis
    using each_due_pair_processed_once [OF m f, of clock_1330 world_2_due world_2_due
        apt_1430 apt_1400 apt_0900 apt_1430 60]
      each_due_pair_processed_once [OF m f, of clock_1330 world_3 world_3
        apt_1430 apt_1800 apt_0900 apt_1430 60]
      m f d acc i a
    by (simp add: sample_two_due_pairs sample_candidates sample_due_pairs world_2_due_fields
        world_3_fields row_for_def)
qed

subsection \<open>C8: two runs in one minute\<close>

text \<open>
  Claim C8. Two runs whose clocks read the same minute, the second on the store the first one
  left, have the same due pairs: a pair due in the first run is due in the second, whatever
  the notifications table holds. With a store that accepts the inserts each run appends the
  rows of its due pairs, so the table ends with these rows twice, and the row of a due pair
  occurs at least two times more than before.
\<close>

theorem no_cross_run_deduplication:
  assumes "method1 \<noteq> ''OPTIONS''" and "method2 \<noteq> ''OPTIONS''"
    and "appointments_fetch_error e = None"
    and "same_minute now1 now2"
    and "(a, t) \<in> set (due_pairs now1 (candidates now1 w))"
    and "\<forall>k r. insert_accepted e k r"
  shows "(a, t) \<in> set (due_pairs now2 (candidates now2 (snd (handler e now1 method1 w))))
       \<and> notifications_tbl (snd (handler e now1 method1 w)) =
           notifications_tbl w @
             map (\<lambda>p. notification_row e (fst p) (snd p)) (due_pairs now1 (candidates now1 w))
       \<and> notifications_tbl (two_runs e now1 now2 method1 method2 w) =
           notifications_tbl w @
             map (\<lambda>p. notification_row e (fst p) (snd p)) (due_pairs now1 (candidates now1 w)) @
             map (\<lambda>p. notification_row e (fst p) (snd p)) (due_pairs now1 (candidates now1 w))
       \<and> count_list (notifications_tbl (two_runs e now1 now2 method1 method2 w))
             (notification_row e a t)
           \<ge> count_list (notifications_tbl w) (notification_row e a t) + 2"
proof -
  let ?w1 = "snd (handler e now1 method1 w)"
  let ?ps = "due_pairs now1 (candidates now1 w)"
  let ?R = "map (\<lambda>p. notification_row e (fst p) (snd p)) ?ps"
  have apts: "appointments_tbl ?w1 = appointments_tbl w"
    using assms(1,3) by (simp add: handler_ok)
  have ps2: "due_pairs now2 (candidates now2 ?w1) = ?ps"
    using assms(4) apts by (simp add: same_minute_due_pairs same_minute_candidates)
  have n1: "notifications_tbl ?w1 = notifications_tbl w @ ?R"
    using assms(1,3,6) by (simp add: handler_ok inserted_rows_all_accepted)
  have n2: "notifications_tbl (two_runs e now1 now2 method1 method2 w) =
      notifications_tbl w @ ?R @ ?R"
    using assms(2,3,6) n1 ps2
    by (simp add: two_runs_def handler_ok inserted_rows_all_accepted)
  have "notification_row e a t \<in> set ?R"
    using assms(5) by force
  then have "count_list ?R (notification_row e a t) \<ge> 1"
    using count_list_0_iff [of ?R "notification_row e a t"] by simp
  then have cnt: "count_list (notifications_tbl (two_runs e now1 now2 method1 method2 w))
             (notification_row e a t)
           \<ge> count_list (notifications_tbl w) (notification_row e a t) + 2"
    by (simp add: n2)
  show ?thesis
    using ps2 assms(5) n1 n2 cnt by simp
qed

theorem no_cross_run_deduplication_witness:
  "''POST'' \<noteq> ''OPTIONS'' \<and> appointments_fetch_error env_ok = None
   \<and> same_minute clock_1330 clock_1330_later
   \<and> (apt_1430, 60) \<in> set (due_pairs clock_1330 (candidates clock_1330 world_3))
   \<and> (\<forall>k r. insert_accepted env_ok k r)
   \<and> (apt_1430, 60) \<in> set (due_pairs clock_1330_later
         (candidates clock_1330_later (snd (handler env_ok clock_1330 ''POST'' world_3))))
   \<and> notifications_tbl (two_runs env_ok clock_1330 clock_1330_later ''POST'' ''POST'' world_3) =
       [notification_row env_ok apt_1430 60, notification_row env_ok apt_1430 60]"
proof -
  have m: "''POST'' \<noteq> ''OPTIONS''" by simp
  have f: "appointments_fetch_error env_ok = None" by (simp add: env_ok_def)
  have s: "same_minute clock_1330 clock_1330_later" by code_simp
  have d: "(apt_1430, 60) \<in> set (due_pairs clock_1330 (candidates clock_1330 world_3))"
    by (simp add: sample_due_pairs)
  have acc: "\<forall>k r. insert_accepted env_ok k r" by (simp add: env_ok_def)
  show ?thesis
    using no_cross_run_deduplication [OF m m f s d acc] m f s d acc
    by (simp add: sample_due_pairs world_3_fields)
qed

subsection \<open>C9: what a run writes\<close>

text \<open>
  Claim C9. Whatever the request, the clock and the collaborators' answers, the appointments
  table after the handler is the table before it, and the notifications table after it is the
  table before it followed by new rows: no row is changed or removed.
\<close>

theorem store_mutations_are_inserts:
  "appointments_tbl (snd (handler e now method w)) = appointments_tbl w
   \<and> (\<exists>rows. notifications_tbl (snd (handler e now method w)) = notifications_tbl w @ rows)"
proof (cases "method = ''OPTIONS''")
  case True
  then show ?thesis by (simp add: handler_options)
next
  case False
  then show ?thesis
    by (cases "appointments_fetch_error e") (simp_all add: handler_failed handler_ok)
qed

theorem store_mutations_are_inserts_witness:
  "appointments_tbl (snd (handler env_ok clock_1330 ''POST'' world_3)) =
     [apt_1430, apt_1800, apt_0900]
   \<and> (\<exists>rows. notifications_tbl (snd (handler env_ok clock_1330 ''POST'' world_3)) = [] @ rows)"
  using store_mutations_are_inserts [of env_ok clock_1330 "''POST''" world_3]
  by (simp add: world_3_def)

end
